theory Spec2Isabelle
  imports Main "HOL-Library.AList"
begin

section \<open>JavaScript values the session computes with\<close>

text \<open>
  The BOSH session of \<^verbatim>\<open>lib/bosh/session.js\<close> is embedded as a state-passing model.
  A JavaScript number that the session parses out of a request attribute is an integer or
  NaN: \<open>None\<close> is NaN.  Integers are unbounded here; the rounding of doubles beyond
  \<open>2^53\<close> and the exponent notation of very large numbers are outside the model.

  A string is the list of the bytes of its UTF-8 encoding, so that a character outside
  ASCII is two or three bytes.

  Also outside the model: the debug output; a child of a body that is a text node (calling
  \<^verbatim>\<open>root()\<close> on it raises); an error event emitted while no listener is attached (the emitter
  raises); and rid values that name a property every object inherits.
\<close>

type_synonym js_number = "int option"

text \<open>
  The white space \<^verbatim>\<open>parseInt\<close> skips is every white space character and line terminator of
  ECMAScript: U+0009 to U+000D, U+0020, U+00A0, U+1680, U+2000 to U+200A, U+2028, U+2029,
  U+202F, U+205F, U+3000 and U+FEFF.  \<open>ws_len\<close> is the number of bytes of such a character at
  the head of a string, or 0 when the string starts with something else.
\<close>

definition ws_len :: "string \<Rightarrow> nat" where
  "ws_len s =
     (if take 1 s \<in> set [[CHR 0x09], [CHR 0x0A], [CHR 0x0B], [CHR 0x0C], [CHR 0x0D], [CHR 0x20]]
      then 1
      else if take 2 s = [CHR 0xC2, CHR 0xA0] then 2
      else if take 3 s \<in> set
                [[CHR 0xE1, CHR 0x9A, CHR 0x80],
                 [CHR 0xE2, CHR 0x80, CHR 0x80], [CHR 0xE2, CHR 0x80, CHR 0x81],
                 [CHR 0xE2, CHR 0x80, CHR 0x82], [CHR 0xE2, CHR 0x80, CHR 0x83],
                 [CHR 0xE2, CHR 0x80, CHR 0x84], [CHR 0xE2, CHR 0x80, CHR 0x85],
                 [CHR 0xE2, CHR 0x80, CHR 0x86], [CHR 0xE2, CHR 0x80, CHR 0x87],
                 [CHR 0xE2, CHR 0x80, CHR 0x88], [CHR 0xE2, CHR 0x80, CHR 0x89],
                 [CHR 0xE2, CHR 0x80, CHR 0x8A],
                 [CHR 0xE2, CHR 0x80, CHR 0xA8], [CHR 0xE2, CHR 0x80, CHR 0xA9],
                 [CHR 0xE2, CHR 0x80, CHR 0xAF], [CHR 0xE2, CHR 0x81, CHR 0x9F],
                 [CHR 0xE3, CHR 0x80, CHR 0x80], [CHR 0xEF, CHR 0xBB, CHR 0xBF]]
      then 3
      else 0)"

function skip_ws :: "string \<Rightarrow> string" where
  "skip_ws s = (if ws_len s = 0 then s else skip_ws (drop (ws_len s) s))"
  by pat_completeness auto

termination
proof (relation "measure length")
  fix s :: string
  assume ws: "ws_len s \<noteq> 0"
  then have "s \<noteq> []"
    by (auto simp: ws_len_def)
  with ws show "(drop (ws_len s) s, s) \<in> measure length"
    by simp
qed simp

declare skip_ws.simps [simp del]

definition is_digit :: "char \<Rightarrow> bool" where
  "is_digit c = (48 \<le> (of_char c :: nat) \<and> (of_char c :: nat) \<le> 57)"

definition digits_val :: "string \<Rightarrow> nat" where
  "digits_val ds = foldl (\<lambda>a c. 10 * a + (of_char c - 48)) 0 ds"

text \<open>\<^verbatim>\<open>String(undefined)\<close> is the text \<^verbatim>\<open>undefined\<close>; this is also what string
  concatenation and property access make of a missing attribute.\<close>

definition str :: "string option \<Rightarrow> string" where
  "str x = (case x of None \<Rightarrow> ''undefined'' | Some t \<Rightarrow> t)"

text \<open>\<^verbatim>\<open>parseInt(x, 10)\<close>: leading white space is skipped, one sign is read, then the
  longest run of decimal digits; no digit at all gives NaN.\<close>

definition parseInt :: "string option \<Rightarrow> js_number" where
  "parseInt x =
     (let s = skip_ws (str x);
          neg = (case s of [] \<Rightarrow> False | c # r \<Rightarrow> c = CHR ''-'');
          r = (case s of [] \<Rightarrow> []
               | c # r \<Rightarrow> if c = CHR ''-'' \<or> c = CHR ''+'' then r else s);
          ds = takeWhile is_digit r
      in if ds = [] then None
         else Some ((if neg then - 1 else 1) * int (digits_val ds)))"

fun digits_of :: "nat \<Rightarrow> string" where
  "digits_of n =
     (if n < 10 then [char_of (48 + n)]
      else digits_of (n div 10) @ [char_of (48 + n mod 10)])"

declare digits_of.simps [simp del]

text \<open>\<^verbatim>\<open>String(n)\<close> of a number, which is also the property key a number indexes with.\<close>

definition num_str :: "js_number \<Rightarrow> string" where
  "num_str x =
     (case x of None \<Rightarrow> ''NaN''
      | Some n \<Rightarrow> if n < 0 then CHR ''-'' # digits_of (nat (- n)) else digits_of (nat n))"

definition js_lt :: "js_number \<Rightarrow> js_number \<Rightarrow> bool" where
  "js_lt a b = (case (a, b) of (Some x, Some y) \<Rightarrow> x < y | _ \<Rightarrow> False)"

definition js_inc :: "js_number \<Rightarrow> js_number" where
  "js_inc a = map_option (\<lambda>n. n + 1) a"

definition js_mul :: "js_number \<Rightarrow> int \<Rightarrow> js_number" where
  "js_mul a k = map_option (\<lambda>n. n * k) a"

text \<open>Truthiness of an attribute value: \<^verbatim>\<open>undefined\<close> and the empty string are falsy.\<close>

definition truthy :: "string option \<Rightarrow> bool" where
  "truthy x = (case x of None \<Rightarrow> False | Some t \<Rightarrow> t \<noteq> [])"

text \<open>\<^verbatim>\<open>a || b\<close> on an attribute value and a string literal.\<close>

definition or_else :: "string option \<Rightarrow> string \<Rightarrow> string" where
  "or_else x d = (if truthy x then str x else d)"

definition sq :: string where
  "sq = [CHR 0x27]"

section \<open>Request contexts, timers, deferred calls and observable effects\<close>

text \<open>
  A child of the body element is represented by the string that
  \<^verbatim>\<open>stanza.root().children.toString()\<close> yields for it; the XML library is not part of
  the repository.  Children are elements, attribute values are strings.
\<close>

type_synonym stanza = string

record bodyEl =
  attrs :: "(string \<times> string) list"
  children :: "stanza list"

text \<open>
  \<^verbatim>\<open>opts\<close>: the request context handed over by the HTTP layer.  \<open>oid\<close> is the identity of
  the JavaScript object, \<open>res\<close> the identity of its response object.  The only property
  the session mutates on it, \<^verbatim>\<open>opts.timer\<close>, lives in the store \<open>opts_timer\<close> of the session
  state, keyed by \<open>oid\<close>.  The last three fields are read by the constructor only.
\<close>

record opts =
  oid :: nat
  bodyEl :: bodyEl
  res :: nat
  opt_xmlns :: "(string \<times> string) list option"
  opt_streamAttrs :: "(string \<times> string) list option"
  opt_sid :: "string option"

definition attr :: "opts \<Rightarrow> string \<Rightarrow> string option" where
  "attr opts k = map_of (attrs (bodyEl opts)) k"

datatype timer_cb = ReqTimeout opts | SessionTimeout

datatype timer = Timer (callback: timer_cb) (delay: js_number)

datatype task = TaskWorkInQueue | TaskWorkOutQueue | TaskOutThenIn

datatype event = Connect | Data string | End | Close | Drain | Error string

datatype effect =
    Emit event
  | WriteHead nat nat "(string \<times> string) list"
  | WriteBody nat "(string \<times> string) list" "string list"
  | EndRes nat "string option"
  | ConsoleError string
  | ConsoleWarn "string option"

text \<open>
  The session object together with the part of the runtime it acts on: \<open>timers\<close> are the
  pending timeouts of the event loop, \<open>ticks\<close> the queue of \<^verbatim>\<open>process.nextTick\<close> calls,
  \<open>effects\<close> everything observable from outside in the order it happened (events emitted
  to the listeners, writes to response objects, console output).  Events are recorded, the
  listeners' reactions are further calls of the methods below.
\<close>

record session =
  writable :: bool
  readable :: bool
  xmlnsAttrs :: "(string \<times> string) list"
  streamAttrs :: "(string \<times> string) list"
  handshakeAttrs :: "(string \<times> string) list"
  sid :: string
  nextRid :: js_number
  wait :: js_number
  hold :: js_number
  inQueue :: "(string \<times> opts) list"
  outQueue :: "opts list"
  stanzaQueue :: "string list"
  connectionTimeout :: "nat option"
  opts_timer :: "nat \<rightharpoonup> nat"
  timers :: "nat \<rightharpoonup> timer"
  next_timer :: nat
  ticks :: "task list"
  effects :: "effect list"

definition emit :: "session \<Rightarrow> event \<Rightarrow> session" where
  "emit s e = s\<lparr>effects := effects s @ [Emit e]\<rparr>"

definition setTimeout :: "session \<Rightarrow> timer_cb \<Rightarrow> js_number \<Rightarrow> nat \<times> session" where
  "setTimeout s cb d =
     (next_timer s,
      s\<lparr>timers := (timers s)(next_timer s \<mapsto> Timer cb d), next_timer := Suc (next_timer s)\<rparr>)"

definition clearTimeout :: "session \<Rightarrow> nat \<Rightarrow> session" where
  "clearTimeout s t = s\<lparr>timers := (timers s)(t := None)\<rparr>"

definition nextTick :: "session \<Rightarrow> task \<Rightarrow> session" where
  "nextTick s t = s\<lparr>ticks := ticks s @ [t]\<rparr>"

section \<open>The methods of BOSHServerSession\<close>

definition NS_HTTPBIND :: string where
  "NS_HTTPBIND = ''http://jabber.org/protocol/httpbind''"

definition maySetConnectionTimeout :: "session \<Rightarrow> session" where
  "maySetConnectionTimeout s =
     (if length (outQueue s) < 1
      then (let (t, s1) = setTimeout s SessionTimeout (Some (60 * 1000))
            in s1\<lparr>connectionTimeout := Some t\<rparr>)
      else s)"

definition empty_session :: session where
  "empty_session =
     \<lparr>writable = True, readable = True, xmlnsAttrs = [], streamAttrs = [],
      handshakeAttrs = [], sid = [], nextRid = None, wait = None, hold = None,
      inQueue = [], outQueue = [], stanzaQueue = [], connectionTimeout = None,
      opts_timer = Map.empty, timers = Map.empty, next_timer = 0, ticks = [],
      effects = []\<rparr>"

text \<open>The constructor; \<open>hat\<close> is the token the random generator returns when it is asked.\<close>

definition BOSHServerSession :: "string \<Rightarrow> opts \<Rightarrow> session" where
  "BOSHServerSession hat opts =
     (let base = [(''xmlns'', NS_HTTPBIND),
                  (''xmlns:xmpp'', ''urn:xmpp:xbosh''),
                  (''xmlns:stream'', ''http://etherx.jabber.org/streams'')];
          xa = (case opt_xmlns opts of None \<Rightarrow> base
                | Some m \<Rightarrow>
                    fold (\<lambda>(prefix, v) a.
                            if prefix \<noteq> [] then AList.update (''xmlns:'' @ prefix) v a
                            else AList.update ''xmlns'' v a) m base);
          the_sid = or_else (opt_sid opts) hat;
          s0 = empty_session
                 \<lparr>xmlnsAttrs := AList.update ''sid'' the_sid xa,
                  streamAttrs := (case opt_streamAttrs opts of None \<Rightarrow> [] | Some a \<Rightarrow> a),
                  handshakeAttrs := attrs (bodyEl opts),
                  sid := the_sid,
                  nextRid := parseInt (attr opts ''rid''),
                  wait := parseInt (Some (or_else (attr opts ''wait'') ''30'')),
                  hold := parseInt (Some (or_else (attr opts ''hold'') ''1''))\<rparr>;
          s1 = maySetConnectionTimeout s0;
          s2 = emit s1 Connect;
          s3 = s2\<lparr>inQueue := AList.update (str (attr opts ''rid'')) opts (inQueue s2)\<rparr>
      in nextTick s3 TaskWorkInQueue)"

definition write_data :: "session \<Rightarrow> string \<Rightarrow> bool \<times> session" where
  "write_data s data =
     (let s1 = s\<lparr>stanzaQueue := stanzaQueue s @ [data]\<rparr>;
          s2 = nextTick s1 TaskWorkOutQueue
      in (length (outQueue s2) > 0, s2))"

text \<open>A stanza is represented by the string its \<^verbatim>\<open>toString()\<close> returns.\<close>

definition serializeStanza :: "string \<Rightarrow> (string \<Rightarrow> 'a) \<Rightarrow> 'a" where
  "serializeStanza s clbk = clbk s"

definition pause :: "session \<Rightarrow> session" where
  "pause s = s"

definition resume :: "session \<Rightarrow> session" where
  "resume s = s"

definition end_session :: "session \<Rightarrow> session" where
  "end_session s = s"

definition sendData :: "session \<Rightarrow> string \<Rightarrow> session" where
  "sendData s data = emit s (Data data)"

definition closeSocket :: "session \<Rightarrow> session" where
  "closeSocket s = emit (emit s End) Close"

text \<open>
  \<^verbatim>\<open>respond\<close>: \<open>parses\<close> says on which fragments \<^verbatim>\<open>ltx.parse\<close> returns an element instead
  of throwing; a child of the written body is represented by the fragment it was parsed
  from.  \<open>children = None\<close> is the call without the third argument.
\<close>

definition respond ::
  "(string \<Rightarrow> bool) \<Rightarrow> session \<Rightarrow> nat \<Rightarrow> (string \<times> string) list \<Rightarrow> string list option \<Rightarrow> session"
where
  "respond parses s r at chn =
     (let head = WriteHead r 200 [(''Content-Type'', ''application/xml; charset=utf-8'')];
          at1 = fold (\<lambda>(k, v) a. AList.update k v a) (xmlnsAttrs s) at;
          cs = (case chn of None \<Rightarrow> [] | Some c \<Rightarrow> c);
          errs = map (\<lambda>e. ConsoleError (''could not parse'' @ e)) (filter (\<lambda>e. \<not> parses e) cs)
      in s\<lparr>effects := effects s @ [head] @ errs
                        @ [WriteBody r at1 (filter parses cs), EndRes r None]\<rparr>)"

text \<open>\<open>admit\<close> is the part of \<^verbatim>\<open>handleHTTP\<close> after its two tests: the idle timer is cleared,
  the timer of the request is armed, the request is stored and \<^verbatim>\<open>workInQueue\<close> deferred.\<close>

definition admit :: "session \<Rightarrow> opts \<Rightarrow> session" where
  "admit s opts =
     (let s1 = (case connectionTimeout s of
                  Some t \<Rightarrow> (clearTimeout s t)\<lparr>connectionTimeout := None\<rparr>
                | None \<Rightarrow> s);
          (t, s2) = setTimeout s1 (ReqTimeout opts) (js_mul (wait s1) 1000);
          s3 = s2\<lparr>opts_timer := (opts_timer s2)(oid opts \<mapsto> t)\<rparr>;
          s4 = s3\<lparr>inQueue := AList.update (str (attr opts ''rid'')) opts (inQueue s3)\<rparr>
      in nextTick s4 TaskWorkInQueue)"

definition handleHTTP :: "session \<Rightarrow> opts \<Rightarrow> session" where
  "handleHTTP s opts =
     (case map_of (inQueue s) (str (attr opts ''rid'')) of
        Some oldOpts \<Rightarrow>
          admit (s\<lparr>effects := effects s
                     @ [WriteHead (res oldOpts) 403 [(''Content-Type'', ''text/plain'')],
                        EndRes (res oldOpts) (Some ''Request replaced by same RID'')]\<rparr>) opts
      | None \<Rightarrow>
          if js_lt (parseInt (attr opts ''rid'')) (parseInt (Some (num_str (nextRid s))))
          then s\<lparr>outQueue := outQueue s @ [opts]\<rparr>
          else admit s opts)"

definition stream_start :: "opts \<Rightarrow> string" where
  "stream_start opts =
     ''<stream:stream xmlns='' @ sq @ ''jabber:client'' @ sq @ '' xmlns:stream='' @ sq
       @ ''http://etherx.jabber.org/streams'' @ sq @ '' to='' @ sq
       @ str (attr opts ''to'') @ sq @ '' version='' @ sq
       @ str (attr opts ''xmpp:version'') @ sq @ ''>''"

definition stream_restart :: "opts \<Rightarrow> string" where
  "stream_restart opts =
     ''<stream:stream xmlns='' @ sq @ ''jabber:client'' @ sq @ '' xmlns:stream='' @ sq
       @ ''http://etherx.jabber.org/streams'' @ sq @ ''  to='' @ sq
       @ str (attr opts ''to'') @ sq @ '' version='' @ sq
       @ str (attr opts ''xmpp:version'') @ sq @ ''>''"

text \<open>What one processed request sends downstream, in order (the body of \<^verbatim>\<open>workInQueue\<close>
  between taking the request out of \<open>inQueue\<close> and pushing it on \<open>outQueue\<close>).\<close>

definition inbound :: "session \<Rightarrow> opts \<Rightarrow> session" where
  "inbound s opts =
     (let s1 = (if \<not> truthy (attr opts ''xmpp:restart'') \<and> truthy (attr opts ''rid'')
                   \<and> \<not> truthy (attr opts ''sid'')
                then sendData (sendData s (''<?xml version='' @ sq @ ''1.0'' @ sq @ '' ?>''))
                       (stream_start opts)
                else s);
          s2 = (if attr opts ''xmpp:restart'' = Some ''true''
                then sendData s1 (stream_restart opts) else s1)
      in fold (\<lambda>stanza s'. sendData s' stanza) (children (bodyEl opts)) s2)"

text \<open>One round of the loop in the terminate branch of \<^verbatim>\<open>workInQueue\<close>.\<close>

definition terminate_one :: "(string \<Rightarrow> bool) \<Rightarrow> opts \<Rightarrow> session \<Rightarrow> session" where
  "terminate_one parses opts s =
     respond parses
       (case opts_timer s (oid opts) of Some t \<Rightarrow> clearTimeout s t | None \<Rightarrow> s)
       (res opts) [(''type'', ''terminate'')] (Some [])"

definition workInQueue :: "(string \<Rightarrow> bool) \<Rightarrow> session \<Rightarrow> session" where
  "workInQueue parses s =
     (case map_of (inQueue s) (num_str (nextRid s)) of
        None \<Rightarrow> s
      | Some opts \<Rightarrow>
          (let s1 = s\<lparr>inQueue := AList.delete (num_str (nextRid s)) (inQueue s),
                      nextRid := js_inc (nextRid s)\<rparr>;
               s2 = inbound s1 opts;
               s3 = s2\<lparr>outQueue := outQueue s2 @ [opts]\<rparr>
           in if attr opts ''type'' \<noteq> Some ''terminate''
              then nextTick s3 TaskOutThenIn
              else closeSocket ((fold (terminate_one parses) (outQueue s3) s3)\<lparr>outQueue := []\<rparr>)))"

definition workOutQueue :: "(string \<Rightarrow> bool) \<Rightarrow> session \<Rightarrow> session" where
  "workOutQueue parses s =
     (if length (stanzaQueue s) < 1 \<and> length (outQueue s) > 0 then emit s Drain
      else case outQueue s of
        [] \<Rightarrow> s
      | opts # rest \<Rightarrow>
          (let stanzas = stanzaQueue s;
               s1 = s\<lparr>stanzaQueue := [], outQueue := rest\<rparr>;
               s2 = (case opts_timer s1 (oid opts) of
                       Some t \<Rightarrow> (clearTimeout s1 t)\<lparr>opts_timer := (opts_timer s1)(oid opts := None)\<rparr>
                     | None \<Rightarrow> s1);
               s3 = respond parses s2 (res opts) [] (Some stanzas)
           in maySetConnectionTimeout s3))"

text \<open>The index the scan of \<^verbatim>\<open>onReqTimeout\<close> stops at, and the array without that element.\<close>

fun splice_rid :: "string option \<Rightarrow> opts list \<Rightarrow> (opts \<times> opts list) option" where
  "splice_rid rid [] = None"
| "splice_rid rid (x # xs) =
     (if attr x ''rid'' = rid then Some (x, xs)
      else map_option (\<lambda>(y, ys). (y, x # ys)) (splice_rid rid xs))"

definition onReqTimeout :: "(string \<Rightarrow> bool) \<Rightarrow> session \<Rightarrow> string option \<Rightarrow> session" where
  "onReqTimeout parses s rid =
     (case map_of (inQueue s) (str rid) of
        Some opts \<Rightarrow>
          respond parses (s\<lparr>inQueue := AList.delete (str rid) (inQueue s)\<rparr>) (res opts) [] None
      | None \<Rightarrow>
          (case splice_rid rid (outQueue s) of
             Some (opts, rest) \<Rightarrow> respond parses (s\<lparr>outQueue := rest\<rparr>) (res opts) [] None
           | None \<Rightarrow> s\<lparr>effects := effects s @ [ConsoleWarn rid]\<rparr>))"

section \<open>The event loop around the session\<close>

text \<open>A pending timeout fires: it leaves the set of pending timers and its callback runs.
  A handle that is not pending cannot fire.\<close>

definition fire :: "(string \<Rightarrow> bool) \<Rightarrow> session \<Rightarrow> nat \<Rightarrow> session" where
  "fire parses s t =
     (case timers s t of
        None \<Rightarrow> s
      | Some tm \<Rightarrow>
          (let s1 = s\<lparr>timers := (timers s)(t := None)\<rparr>
           in case callback tm of
                ReqTimeout opts \<Rightarrow>
                  onReqTimeout parses (s1\<lparr>opts_timer := (opts_timer s1)(oid opts := None)\<rparr>)
                    (attr opts ''rid'')
              | SessionTimeout \<Rightarrow> emit (emit s1 (Error ''Session timeout'')) Close))"

definition run_task :: "(string \<Rightarrow> bool) \<Rightarrow> task \<Rightarrow> session \<Rightarrow> session" where
  "run_task parses t s =
     (case t of
        TaskWorkInQueue \<Rightarrow> workInQueue parses s
      | TaskWorkOutQueue \<Rightarrow> workOutQueue parses s
      | TaskOutThenIn \<Rightarrow> workInQueue parses (workOutQueue parses s))"

section \<open>What a call writes and emits\<close>

text \<open>
  The data events one processed request causes (see \<open>inbound\<close>) and the writes of one call of
  \<^verbatim>\<open>respond\<close>, as lists; \<open>inbound_frame\<close> and \<open>respond_effects_eq\<close> below show that this is
  what the methods add to the record of effects.  \<open>data_events\<close> selects the payloads of the
  data events from a record of effects, \<open>bodies_written\<close> the children of the bodies written to
  one response object.  \<open>pending_timers\<close> lists the timeouts of the event loop that have not
  fired and were not cleared, \<open>idle_timers\<close> the handles of the session timeouts among them.
\<close>

definition inbound_data :: "opts \<Rightarrow> string list" where
  "inbound_data opts =
     (if \<not> truthy (attr opts ''xmpp:restart'') \<and> truthy (attr opts ''rid'')
           \<and> \<not> truthy (attr opts ''sid'')
      then [''<?xml version='' @ sq @ ''1.0'' @ sq @ '' ?>'', stream_start opts] else [])
     @ (if attr opts ''xmpp:restart'' = Some ''true'' then [stream_restart opts] else [])
     @ children (bodyEl opts)"

definition respond_effects ::
  "(string \<Rightarrow> bool) \<Rightarrow> (string \<times> string) list \<Rightarrow> nat \<Rightarrow> (string \<times> string) list
     \<Rightarrow> string list option \<Rightarrow> effect list"
where
  "respond_effects parses xa r at chn =
     [WriteHead r 200 [(''Content-Type'', ''application/xml; charset=utf-8'')]]
     @ map (\<lambda>e. ConsoleError (''could not parse'' @ e))
         (filter (\<lambda>e. \<not> parses e) (case chn of None \<Rightarrow> [] | Some c \<Rightarrow> c))
     @ [WriteBody r (fold (\<lambda>(k, v) a. AList.update k v a) xa at)
          (filter parses (case chn of None \<Rightarrow> [] | Some c \<Rightarrow> c)),
        EndRes r None]"

definition data_events :: "effect list \<Rightarrow> string list" where
  "data_events es = concat (map (\<lambda>e. case e of Emit (Data d) \<Rightarrow> [d] | _ \<Rightarrow> []) es)"

definition bodies_written :: "effect list \<Rightarrow> nat \<Rightarrow> string list list" where
  "bodies_written es r =
     concat (map (\<lambda>e. case e of WriteBody r' a c \<Rightarrow> if r' = r then [c] else [] | _ \<Rightarrow> []) es)"

definition pending_timers :: "session \<Rightarrow> (nat \<times> timer) list" where
  "pending_timers s =
     concat (map (\<lambda>t. case timers s t of None \<Rightarrow> [] | Some tm \<Rightarrow> [(t, tm)]) [0..<next_timer s])"



section \<open>Numbers and property keys\<close>

lemma of_char_digit: "d < 10 \<Longrightarrow> (of_char (char_of (48 + d :: nat)) :: nat) = 48 + d"
  by simp

lemma is_digit_char_of: "d < 10 \<Longrightarrow> is_digit (char_of (48 + d :: nat))"
  by (simp add: is_digit_def)

lemma digits_of_all_digits: "c \<in> set (digits_of n) \<Longrightarrow> is_digit c"
proof (induction n arbitrary: c rule: digits_of.induct)
  case (1 n)
  show ?case
  proof (cases "n < 10")
    case True
    with "1.prems" show ?thesis
      by (simp add: digits_of.simps [of n] is_digit_char_of)
  next
    case False
    with "1.prems" "1.IH" show ?thesis
      by (auto simp: digits_of.simps [of n] is_digit_char_of)
  qed
qed

lemma digits_of_nonempty: "digits_of n \<noteq> []"
  by (subst digits_of.simps) simp

lemma digits_val_snoc: "digits_val (xs @ [c]) = 10 * digits_val xs + (of_char c - 48)"
  by (simp add: digits_val_def)

lemma digits_val_digits_of: "digits_val (digits_of n) = n"
proof (induction n rule: digits_of.induct)
  case (1 n)
  show ?case
  proof (cases "n < 10")
    case True
    then show ?thesis
      by (simp add: digits_of.simps [of n] digits_val_def)
  next
    case False
    with "1.IH" show ?thesis
      by (simp add: digits_of.simps [of n] digits_val_snoc)
  qed
qed

lemma is_digit_not_special:
  "is_digit c \<Longrightarrow> c \<noteq> CHR ''-'' \<and> c \<noteq> CHR ''+''"
  by (auto simp: is_digit_def)

lemma ws_len_lead:
  assumes "c \<notin> set [CHR 0x09, CHR 0x0A, CHR 0x0B, CHR 0x0C, CHR 0x0D, CHR 0x20,
                       CHR 0xC2, CHR 0xE1, CHR 0xE2, CHR 0xE3, CHR 0xEF]"
  shows "ws_len (c # r) = 0"
  using assms by (simp add: ws_len_def)

lemma is_digit_lead:
  "is_digit c \<Longrightarrow>
   c \<notin> set [CHR 0x09, CHR 0x0A, CHR 0x0B, CHR 0x0C, CHR 0x0D, CHR 0x20,
               CHR 0xC2, CHR 0xE1, CHR 0xE2, CHR 0xE3, CHR 0xEF]"
  by (auto simp: is_digit_def)

lemma skip_ws_lead:
  assumes "c \<notin> set [CHR 0x09, CHR 0x0A, CHR 0x0B, CHR 0x0C, CHR 0x0D, CHR 0x20,
                       CHR 0xC2, CHR 0xE1, CHR 0xE2, CHR 0xE3, CHR 0xEF]"
  shows "skip_ws (c # r) = c # r"
  by (subst skip_ws.simps) (simp add: ws_len_lead [OF assms])

lemma skip_ws_digit: "is_digit c \<Longrightarrow> skip_ws (c # r) = c # r"
  by (rule skip_ws_lead) (rule is_digit_lead)

lemma skip_ws_minus: "skip_ws (CHR ''-'' # r) = CHR ''-'' # r"
  by (rule skip_ws_lead) simp

lemma skip_ws_NaN: "skip_ws ''NaN'' = ''NaN''"
  by (rule skip_ws_lead) simp

lemma takeWhile_digits_of: "takeWhile is_digit (digits_of n) = digits_of n"
  by (simp add: digits_of_all_digits)

lemma parse_digits_of:
  "parseInt (Some (digits_of n)) = Some (int n)"
proof -
  obtain c r where cr: "digits_of n = c # r"
    using digits_of_nonempty [of n] by (cases "digits_of n") auto
  then have d: "is_digit c"
    using digits_of_all_digits [of c n] by simp
  then have c: "skip_ws (c # r) = c # r" "c \<noteq> CHR ''-''" "c \<noteq> CHR ''+''"
    using is_digit_not_special skip_ws_digit by blast+
  have tw: "takeWhile is_digit (c # r) = c # r"
    using takeWhile_digits_of [of n] cr by simp
  have dv: "digits_val (c # r) = n"
    using digits_val_digits_of [of n] cr by simp
  show ?thesis
    using c tw dv by (simp add: parseInt_def str_def cr Let_def)
qed

lemma parse_minus_digits_of:
  "0 < n \<Longrightarrow> parseInt (Some (CHR ''-'' # digits_of n)) = Some (- int n)"
  using digits_of_nonempty [of n]
  by (simp add: parseInt_def str_def Let_def skip_ws_minus takeWhile_digits_of
        digits_val_digits_of)

lemma parseInt_num_str [simp]: "parseInt (Some (num_str x)) = x"
proof (cases x)
  case None
  then show ?thesis
    by (simp add: num_str_def parseInt_def str_def Let_def skip_ws_NaN is_digit_def)
next
  case (Some n)
  show ?thesis
  proof (cases "n < 0")
    case True
    then show ?thesis
      using parse_minus_digits_of [of "nat (- n)"] Some by (simp add: num_str_def)
  next
    case False
    then show ?thesis
      using parse_digits_of [of "nat n"] Some by (simp add: num_str_def)
  qed
qed

lemma num_str_inj [simp]: "num_str x = num_str y \<longleftrightarrow> x = y"
  by (metis parseInt_num_str)

lemma str_Some [simp]: "str (Some t) = t"
  by (simp add: str_def)


lemma js_inc_Some [simp]: "js_inc (Some n) = Some (n + 1)"
  by (simp add: js_inc_def)

lemma js_lt_Some [simp]: "js_lt (Some a) (Some b) = (a < b)"
  by (simp add: js_lt_def)

lemma js_lt_irrefl [simp]: "\<not> js_lt a a"
  by (cases a) (simp_all add: js_lt_def)

section \<open>What each method leaves unchanged\<close>

lemma length_delete_less:
  "map_of xs k = Some v \<Longrightarrow> length (AList.delete k xs) < length xs"
  by (induction xs) (auto simp: less_Suc_eq_le AList.length_delete_le split: if_splits)

lemma respond_frame [simp]:
  "inQueue (respond p s r a c) = inQueue s"
  "outQueue (respond p s r a c) = outQueue s"
  "stanzaQueue (respond p s r a c) = stanzaQueue s"
  "nextRid (respond p s r a c) = nextRid s"
  "ticks (respond p s r a c) = ticks s"
  "timers (respond p s r a c) = timers s"
  "opts_timer (respond p s r a c) = opts_timer s"
  "connectionTimeout (respond p s r a c) = connectionTimeout s"
  "next_timer (respond p s r a c) = next_timer s"
  "xmlnsAttrs (respond p s r a c) = xmlnsAttrs s"
  "wait (respond p s r a c) = wait s"
  by (simp_all add: respond_def Let_def)

lemma emit_frame [simp]:
  "inQueue (emit s e) = inQueue s"
  "outQueue (emit s e) = outQueue s"
  "stanzaQueue (emit s e) = stanzaQueue s"
  "nextRid (emit s e) = nextRid s"
  "ticks (emit s e) = ticks s"
  "timers (emit s e) = timers s"
  "opts_timer (emit s e) = opts_timer s"
  "connectionTimeout (emit s e) = connectionTimeout s"
  "next_timer (emit s e) = next_timer s"
  "xmlnsAttrs (emit s e) = xmlnsAttrs s"
  "wait (emit s e) = wait s"
  "effects (emit s e) = effects s @ [Emit e]"
  by (simp_all add: emit_def)

lemma sendData_frame [simp]:
  "inQueue (sendData s d) = inQueue s"
  "outQueue (sendData s d) = outQueue s"
  "stanzaQueue (sendData s d) = stanzaQueue s"
  "nextRid (sendData s d) = nextRid s"
  "ticks (sendData s d) = ticks s"
  "timers (sendData s d) = timers s"
  "opts_timer (sendData s d) = opts_timer s"
  "connectionTimeout (sendData s d) = connectionTimeout s"
  "next_timer (sendData s d) = next_timer s"
  "xmlnsAttrs (sendData s d) = xmlnsAttrs s"
  "wait (sendData s d) = wait s"
  "effects (sendData s d) = effects s @ [Emit (Data d)]"
  by (simp_all add: sendData_def)

lemma fold_sendData_frame [simp]:
  "inQueue (fold (\<lambda>x s'. sendData s' x) xs s) = inQueue s"
  "outQueue (fold (\<lambda>x s'. sendData s' x) xs s) = outQueue s"
  "stanzaQueue (fold (\<lambda>x s'. sendData s' x) xs s) = stanzaQueue s"
  "nextRid (fold (\<lambda>x s'. sendData s' x) xs s) = nextRid s"
  "ticks (fold (\<lambda>x s'. sendData s' x) xs s) = ticks s"
  "timers (fold (\<lambda>x s'. sendData s' x) xs s) = timers s"
  "opts_timer (fold (\<lambda>x s'. sendData s' x) xs s) = opts_timer s"
  "connectionTimeout (fold (\<lambda>x s'. sendData s' x) xs s) = connectionTimeout s"
  "next_timer (fold (\<lambda>x s'. sendData s' x) xs s) = next_timer s"
  "xmlnsAttrs (fold (\<lambda>x s'. sendData s' x) xs s) = xmlnsAttrs s"
  "wait (fold (\<lambda>x s'. sendData s' x) xs s) = wait s"
  "effects (fold (\<lambda>x s'. sendData s' x) xs s) = effects s @ map (\<lambda>x. Emit (Data x)) xs"
  by (induction xs arbitrary: s; simp)+

lemma inbound_frame [simp]:
  "inQueue (inbound s opts) = inQueue s"
  "outQueue (inbound s opts) = outQueue s"
  "stanzaQueue (inbound s opts) = stanzaQueue s"
  "nextRid (inbound s opts) = nextRid s"
  "ticks (inbound s opts) = ticks s"
  "timers (inbound s opts) = timers s"
  "opts_timer (inbound s opts) = opts_timer s"
  "connectionTimeout (inbound s opts) = connectionTimeout s"
  "next_timer (inbound s opts) = next_timer s"
  "xmlnsAttrs (inbound s opts) = xmlnsAttrs s"
  "wait (inbound s opts) = wait s"
  "effects (inbound s opts) = effects s @ map (\<lambda>x. Emit (Data x)) (inbound_data opts)"
  by (simp_all add: inbound_def inbound_data_def Let_def)

lemma clearTimeout_frame [simp]:
  "inQueue (clearTimeout s t) = inQueue s"
  "outQueue (clearTimeout s t) = outQueue s"
  "stanzaQueue (clearTimeout s t) = stanzaQueue s"
  "nextRid (clearTimeout s t) = nextRid s"
  "ticks (clearTimeout s t) = ticks s"
  "opts_timer (clearTimeout s t) = opts_timer s"
  "connectionTimeout (clearTimeout s t) = connectionTimeout s"
  "next_timer (clearTimeout s t) = next_timer s"
  "xmlnsAttrs (clearTimeout s t) = xmlnsAttrs s"
  "wait (clearTimeout s t) = wait s"
  "effects (clearTimeout s t) = effects s"
  "timers (clearTimeout s t) = (timers s)(t := None)"
  by (simp_all add: clearTimeout_def)

lemma nextTick_frame [simp]:
  "inQueue (nextTick s t) = inQueue s"
  "outQueue (nextTick s t) = outQueue s"
  "stanzaQueue (nextTick s t) = stanzaQueue s"
  "nextRid (nextTick s t) = nextRid s"
  "timers (nextTick s t) = timers s"
  "opts_timer (nextTick s t) = opts_timer s"
  "connectionTimeout (nextTick s t) = connectionTimeout s"
  "next_timer (nextTick s t) = next_timer s"
  "xmlnsAttrs (nextTick s t) = xmlnsAttrs s"
  "wait (nextTick s t) = wait s"
  "effects (nextTick s t) = effects s"
  "ticks (nextTick s t) = ticks s @ [t]"
  by (simp_all add: nextTick_def)

lemma closeSocket_frame [simp]:
  "inQueue (closeSocket s) = inQueue s"
  "outQueue (closeSocket s) = outQueue s"
  "stanzaQueue (closeSocket s) = stanzaQueue s"
  "nextRid (closeSocket s) = nextRid s"
  "ticks (closeSocket s) = ticks s"
  "timers (closeSocket s) = timers s"
  "opts_timer (closeSocket s) = opts_timer s"
  "connectionTimeout (closeSocket s) = connectionTimeout s"
  "next_timer (closeSocket s) = next_timer s"
  "xmlnsAttrs (closeSocket s) = xmlnsAttrs s"
  "wait (closeSocket s) = wait s"
  "effects (closeSocket s) = effects s @ [Emit End, Emit Close]"
  by (simp_all add: closeSocket_def)

lemma maySet_frame [simp]:
  "inQueue (maySetConnectionTimeout s) = inQueue s"
  "outQueue (maySetConnectionTimeout s) = outQueue s"
  "stanzaQueue (maySetConnectionTimeout s) = stanzaQueue s"
  "nextRid (maySetConnectionTimeout s) = nextRid s"
  "ticks (maySetConnectionTimeout s) = ticks s"
  "opts_timer (maySetConnectionTimeout s) = opts_timer s"
  "xmlnsAttrs (maySetConnectionTimeout s) = xmlnsAttrs s"
  "wait (maySetConnectionTimeout s) = wait s"
  "effects (maySetConnectionTimeout s) = effects s"
  by (simp_all add: maySetConnectionTimeout_def setTimeout_def Let_def)

lemma respond_effects_eq [simp]:
  "effects (respond p s r a c) = effects s @ respond_effects p (xmlnsAttrs s) r a c"
  by (simp add: respond_def respond_effects_def Let_def)

lemma terminate_one_frame [simp]:
  "inQueue (terminate_one p x s) = inQueue s"
  "outQueue (terminate_one p x s) = outQueue s"
  "stanzaQueue (terminate_one p x s) = stanzaQueue s"
  "nextRid (terminate_one p x s) = nextRid s"
  "ticks (terminate_one p x s) = ticks s"
  "opts_timer (terminate_one p x s) = opts_timer s"
  "connectionTimeout (terminate_one p x s) = connectionTimeout s"
  "next_timer (terminate_one p x s) = next_timer s"
  "xmlnsAttrs (terminate_one p x s) = xmlnsAttrs s"
  "wait (terminate_one p x s) = wait s"
  "effects (terminate_one p x s) = effects s @ respond_effects p (xmlnsAttrs s) (res x) [(''type'', ''terminate'')] (Some [])"
  by (simp_all add: terminate_one_def split: option.splits)

lemma fold_terminate_frame [simp]:
  "inQueue (fold (terminate_one p) xs s) = inQueue s"
  "outQueue (fold (terminate_one p) xs s) = outQueue s"
  "stanzaQueue (fold (terminate_one p) xs s) = stanzaQueue s"
  "nextRid (fold (terminate_one p) xs s) = nextRid s"
  "ticks (fold (terminate_one p) xs s) = ticks s"
  "opts_timer (fold (terminate_one p) xs s) = opts_timer s"
  "connectionTimeout (fold (terminate_one p) xs s) = connectionTimeout s"
  "next_timer (fold (terminate_one p) xs s) = next_timer s"
  "xmlnsAttrs (fold (terminate_one p) xs s) = xmlnsAttrs s"
  "wait (fold (terminate_one p) xs s) = wait s"
  "effects (fold (terminate_one p) xs s) = effects s @ concat (map (\<lambda>x. respond_effects p (xmlnsAttrs s) (res x) [(''type'', ''terminate'')] (Some [])) xs)"
  by (induction xs arbitrary: s; simp)+

lemma workOutQueue_frame [simp]:
  "inQueue (workOutQueue p s) = inQueue s"
  "nextRid (workOutQueue p s) = nextRid s"
  "ticks (workOutQueue p s) = ticks s"
  "xmlnsAttrs (workOutQueue p s) = xmlnsAttrs s"
  "wait (workOutQueue p s) = wait s"
  by (simp_all add: workOutQueue_def Let_def split: list.splits option.splits)

lemma workInQueue_measure:
  "2 * length (inQueue (workInQueue p s)) + length (ticks (workInQueue p s))
     \<le> 2 * length (inQueue s) + length (ticks s)"
  using length_delete_less [of "inQueue s" "num_str (nextRid s)"]
  by (auto simp: workInQueue_def Let_def split: option.splits)

section \<open>Running the deferred calls\<close>

text \<open>
  The deferred calls run in the order they were queued, each may queue further ones, and the
  queue is run until it is empty.  This terminates: only \<^verbatim>\<open>workInQueue\<close> queues a call, and only
  when it has taken a request out of \<open>inQueue\<close>.
\<close>

function run_ticks :: "(string \<Rightarrow> bool) \<Rightarrow> session \<Rightarrow> session" where
  "run_ticks p s =
     (case ticks s of
        [] \<Rightarrow> s
      | t # ts \<Rightarrow> run_ticks p (run_task p t (s\<lparr>ticks := ts\<rparr>)))"
  by pat_completeness auto

termination
proof (relation "measure (\<lambda>(p, s). 2 * length (inQueue s) + length (ticks s))")
  fix p :: "string \<Rightarrow> bool" and s :: session and t ts
  assume "ticks s = t # ts"
  then show "((p, run_task p t (s\<lparr>ticks := ts\<rparr>)), (p, s))
               \<in> measure (\<lambda>(p, s). 2 * length (inQueue s) + length (ticks s))"
    using workInQueue_measure [of p "s\<lparr>ticks := ts\<rparr>"]
          workInQueue_measure [of p "workOutQueue p (s\<lparr>ticks := ts\<rparr>)"]
    by (cases t) (simp_all add: run_task_def)
qed simp

declare run_ticks.simps [simp del]

text \<open>One I/O event of the HTTP layer: \<^verbatim>\<open>handleHTTP\<close> is called with the request context, and
  the calls deferred with \<^verbatim>\<open>process.nextTick\<close> run before the next I/O event or timer.\<close>

definition arrive :: "(string \<Rightarrow> bool) \<Rightarrow> session \<Rightarrow> opts \<Rightarrow> session" where
  "arrive p s opts = run_ticks p (handleHTTP s opts)"


function drain_view ::
  "nat \<Rightarrow> js_number \<Rightarrow> (string \<times> opts) list \<Rightarrow> string list
     \<Rightarrow> js_number \<times> (string \<times> opts) list \<times> string list"
where
  "drain_view k n q d =
     (if k = 0 then (n, q, d)
      else case map_of q (num_str n) of
             None \<Rightarrow> (n, q, d)
           | Some opts \<Rightarrow>
               drain_view (if attr opts ''type'' = Some ''terminate'' then k - 1 else k)
                 (js_inc n) (AList.delete (num_str n) q) (d @ inbound_data opts))"
  by pat_completeness auto

termination
  by (relation "measure (\<lambda>(k, n, q, d). length q)") (auto simp: length_delete_less)

declare drain_view.simps [simp del]



section \<open>Example sessions\<close>

text \<open>
  The sessions and requests the theorems below are instantiated with.  \<open>accepts\<close> stands for
  the outcome of \<^verbatim>\<open>ltx.parse\<close> on the fragments used here: an unclosed stream header does not
  parse, the other fragments do.  \<open>created\<close> is a session right after its constructor,
  \<open>ready\<close> the same session after its deferred calls: the creating request is processed and
  held in \<open>outQueue\<close>, and \<open>nextRid\<close> is 2.
\<close>

definition accepts :: "string \<Rightarrow> bool" where
  "accepts e = (take 14 e \<noteq> ''<stream:stream'')"

definition creating_request :: opts where
  "creating_request =
     \<lparr>oid = 0,
      bodyEl = \<lparr>attrs = [(''rid'', ''1''), (''to'', ''example.org''), (''wait'', ''5''),
                        (''hold'', ''1''), (''xmpp:version'', ''1.0'')],
                children = []\<rparr>,
      res = 0, opt_xmlns = None, opt_streamAttrs = None, opt_sid = None\<rparr>"

definition request :: "nat \<Rightarrow> string \<Rightarrow> (string \<times> string) list \<Rightarrow> stanza list \<Rightarrow> opts" where
  "request i rid extra chn =
     \<lparr>oid = i, bodyEl = \<lparr>attrs = [(''rid'', rid), (''sid'', ''s1'')] @ extra, children = chn\<rparr>,
      res = i, opt_xmlns = None, opt_streamAttrs = None, opt_sid = None\<rparr>"

definition created :: session where
  "created = BOSHServerSession ''s1'' creating_request"

definition ready :: session where
  "ready = run_ticks accepts created"




definition old_req :: opts where
  "old_req = request 1 ''3'' [] [''<a/>'']"

definition new_req :: opts where
  "new_req = request 2 ''3'' [] [''<b/>'']"

definition superseded :: session where
  "superseded = arrive accepts (arrive accepts ready old_req) new_req"

definition term_req :: opts where
  "term_req = request 1 ''2'' [(''type'', ''terminate'')] []"

definition restart_req :: opts where
  "restart_req =
     request 1 ''2''
       [(''xmpp:restart'', ''true''), (''to'', ''example.org''), (''xmpp:version'', ''1.0'')]
       [''<bind/>'']"

definition backlog :: session where
  "backlog = snd (write_data (snd (write_data ready ''<stream:stream>'')) ''<x/>'')"



section \<open>Data events and the order of processing\<close>

lemma data_events_simps [simp]:
  "data_events [] = []"
  "data_events (xs @ ys) = data_events xs @ data_events ys"
  "data_events (Emit (Data d) # xs) = d # data_events xs"
  "data_events (Emit Connect # xs) = data_events xs"
  "data_events (Emit End # xs) = data_events xs"
  "data_events (Emit Close # xs) = data_events xs"
  "data_events (Emit Drain # xs) = data_events xs"
  "data_events (Emit (Error m) # xs) = data_events xs"
  "data_events (WriteHead r c h # xs) = data_events xs"
  "data_events (WriteBody r a b # xs) = data_events xs"
  "data_events (EndRes r e # xs) = data_events xs"
  "data_events (ConsoleError m # xs) = data_events xs"
  "data_events (ConsoleWarn w # xs) = data_events xs"
  by (simp_all add: data_events_def)

lemma data_events_Data [simp]: "data_events (map (\<lambda>x. Emit (Data x)) xs) = xs"
  by (induction xs) simp_all

lemma data_events_ConsoleError [simp]: "data_events (map (\<lambda>e. ConsoleError (f e)) xs) = []"
  by (induction xs) simp_all

lemma data_events_respond [simp]: "data_events (respond_effects p xa r a c) = []"
  by (simp add: respond_effects_def)

lemma data_events_responds [simp]:
  "data_events (concat (map (\<lambda>x. respond_effects p xa (f x) a c) xs)) = []"
  by (induction xs) simp_all

lemma workInQueue_effects:
  assumes "map_of (inQueue s) (num_str (nextRid s)) = Some opts"
  shows "effects (workInQueue p s) =
           effects s @ map (\<lambda>x. Emit (Data x)) (inbound_data opts)
           @ (if attr opts ''type'' \<noteq> Some ''terminate'' then []
              else concat (map (\<lambda>x. respond_effects p (xmlnsAttrs s) (res x)
                                   [(''type'', ''terminate'')] (Some []))
                             (outQueue s @ [opts]))
                   @ [Emit End, Emit Close])"
  using assms by (simp add: workInQueue_def Let_def)

lemma fold_terminate_timers:
  "timers (fold (terminate_one p) xs s) t =
     (if \<exists>x\<in>set xs. opts_timer s (oid x) = Some t then None else timers s t)"
proof (induction xs arbitrary: s)
  case Nil
  then show ?case by simp
next
  case (Cons x xs)
  have "timers (terminate_one p x s) t = (if opts_timer s (oid x) = Some t then None else timers s t)"
    by (simp add: terminate_one_def split: option.splits)
  with Cons show ?case by auto
qed

lemma merge_keeps_type:
  "k \<notin> fst ` set xa \<Longrightarrow> map_of (fold (\<lambda>(k, v) a. AList.update k v a) xa at) k = map_of at k"
  by (induction xa arbitrary: at) (auto simp: AList.update_conv')

lemma workOutQueue_data [simp]:
  "data_events (effects (workOutQueue p s)) = data_events (effects s)"
  by (simp add: workOutQueue_def Let_def maySetConnectionTimeout_def setTimeout_def
        split: list.splits option.splits)

lemma drain_view_zero [simp]: "drain_view 0 n q d = (n, q, d)"
  by (simp add: drain_view.simps)

lemma drain_view_none [simp]:
  "map_of q (num_str n) = None \<Longrightarrow> drain_view k n q d = (n, q, d)"
  by (simp add: drain_view.simps)






lemma run_ticks_ticks [simp]: "ticks (run_ticks p s) = []"
proof (induction p s rule: run_ticks.induct)
  case (1 p s)
  then show ?case
    by (cases "ticks s") (simp_all add: run_ticks.simps [of p s])
qed



lemma arrive_ticks [simp]: "ticks (arrive p s opts) = []"
  by (simp add: arrive_def)








section \<open>C1: inbound data follows the rid order\<close>



section \<open>C2: a terminate request flushes every held response\<close>

text \<open>
  C2.  When \<^verbatim>\<open>workInQueue\<close> processes a request of type terminate, then after the data events
  of that request every context of \<open>outQueue\<close>, the terminate request last, gets one response
  with status 200 and a body without children whose attributes carry \<open>type = terminate\<close>
  (the session attributes have no key \<open>type\<close> that could overwrite it), the timer of each of
  these contexts is no longer pending, \<open>outQueue\<close> is empty, and the last two effects are the
  events end and close, in this order.
\<close>

theorem terminate_flushes_all:
  assumes "map_of (inQueue s) (num_str (nextRid s)) = Some opts"
      and "attr opts ''type'' = Some ''terminate''"
  shows "effects (workInQueue p s) =
           effects s @ map (\<lambda>x. Emit (Data x)) (inbound_data opts)
           @ concat (map (\<lambda>x. [WriteHead (res x) 200
                                  [(''Content-Type'', ''application/xml; charset=utf-8'')],
                                WriteBody (res x)
                                  (fold (\<lambda>(k, v) a. AList.update k v a) (xmlnsAttrs s)
                                     [(''type'', ''terminate'')]) [],
                                EndRes (res x) None])
                       (outQueue s @ [opts]))
           @ [Emit End, Emit Close]
         \<and> (''type'' \<notin> fst ` set (xmlnsAttrs s) \<longrightarrow>
              map_of (fold (\<lambda>(k, v) a. AList.update k v a) (xmlnsAttrs s)
                        [(''type'', ''terminate'')]) ''type'' = Some ''terminate'')
         \<and> outQueue (workInQueue p s) = []
         \<and> (\<forall>x\<in>set (outQueue s @ [opts]). \<forall>t. opts_timer s (oid x) = Some t \<longrightarrow>
                timers (workInQueue p s) t = None)"
proof -
  have "timers (workInQueue p s) t = None"
    if "x \<in> set (outQueue s @ [opts])" "opts_timer s (oid x) = Some t" for x t
    using assms that
    by (simp add: workInQueue_def Let_def fold_terminate_timers del: fold_append) blast
  moreover have "outQueue (workInQueue p s) = []"
    using assms by (simp add: workInQueue_def Let_def)
  moreover have "respond_effects p xa r [(''type'', ''terminate'')] (Some []) =
      [WriteHead r 200 [(''Content-Type'', ''application/xml; charset=utf-8'')],
       WriteBody r (fold (\<lambda>(k, v) a. AList.update k v a) xa [(''type'', ''terminate'')]) [],
       EndRes r None]" for xa r
    by (simp add: respond_effects_def)
  ultimately show ?thesis
    using assms by (simp add: workInQueue_effects merge_keeps_type)
qed

text \<open>A terminate request with rid 2 arriving at \<open>ready\<close>, where the creating request is held.\<close>

theorem terminate_flushes_all_witness:
  "map_of (inQueue (handleHTTP ready term_req)) (num_str (nextRid (handleHTTP ready term_req)))
     = Some term_req
   \<and> attr term_req ''type'' = Some ''terminate''
   \<and> outQueue (handleHTTP ready term_req) = [creating_request]
   \<and> opts_timer (handleHTTP ready term_req) (oid term_req) = Some 1
   \<and> map_of (xmlnsAttrs (handleHTTP ready term_req)) ''type'' = None
   \<and> outQueue (workInQueue accepts (handleHTTP ready term_req)) = []
   \<and> timers (workInQueue accepts (handleHTTP ready term_req)) 1 = None
   \<and> map_of (fold (\<lambda>(k, v) a. AList.update k v a) (xmlnsAttrs (handleHTTP ready term_req))
               [(''type'', ''terminate'')]) ''type'' = Some ''terminate''"
proof -
  let ?s = "handleHTTP ready term_req"
  have h1: "map_of (inQueue ?s) (num_str (nextRid ?s)) = Some term_req"
    by code_simp
  have h2: "attr term_req ''type'' = Some ''terminate''"
    by code_simp
  have h3: "outQueue ?s = [creating_request]"
    by code_simp
  have h4: "opts_timer ?s (oid term_req) = Some 1"
    by code_simp
  have h5: "map_of (xmlnsAttrs ?s) ''type'' = None"
    by code_simp
  then have h5': "''type'' \<notin> fst ` set (xmlnsAttrs ?s)"
    by (simp add: map_of_eq_None_iff)
  note c = terminate_flushes_all [OF h1 h2, of accepts]
  have "timers (workInQueue accepts ?s) 1 = None"
    using c h4 by auto
  then show ?thesis
    using c h1 h2 h3 h4 h5 h5' by blast
qed

section \<open>C3: a second request with a queued rid replaces the first\<close>

text \<open>
  C3.  When \<open>inQueue\<close> holds a context under the rid of an arriving request, \<^verbatim>\<open>handleHTTP\<close> writes
  status 403 with content type text/plain to the response of the queued context and ends it
  with the text \<^verbatim>\<open>Request replaced by same RID\<close>, and the arriving request is stored in
  \<open>inQueue\<close> under that rid in its place.
\<close>

theorem duplicate_rid_replaces:
  assumes "map_of (inQueue s) (str (attr new ''rid'')) = Some old"
  shows "effects (handleHTTP s new) =
           effects s @ [WriteHead (res old) 403 [(''Content-Type'', ''text/plain'')],
                        EndRes (res old) (Some ''Request replaced by same RID'')]
         \<and> inQueue (handleHTTP s new) = AList.update (str (attr new ''rid'')) new (inQueue s)
         \<and> map_of (inQueue (handleHTTP s new)) (str (attr new ''rid'')) = Some new"
  using assms
  by (simp add: handleHTTP_def admit_def setTimeout_def nextTick_def clearTimeout_def Let_def
        AList.update_conv' split: option.splits)

text \<open>Two requests with rid 3 arriving at \<open>ready\<close>, which waits for rid 2.\<close>

theorem duplicate_rid_replaces_witness:
  "map_of (inQueue (arrive accepts ready old_req)) (str (attr new_req ''rid'')) = Some old_req
   \<and> effects (handleHTTP (arrive accepts ready old_req) new_req) =
       effects (arrive accepts ready old_req)
       @ [WriteHead (res old_req) 403 [(''Content-Type'', ''text/plain'')],
          EndRes (res old_req) (Some ''Request replaced by same RID'')]
   \<and> map_of (inQueue (handleHTTP (arrive accepts ready old_req) new_req))
        (str (attr new_req ''rid'')) = Some new_req"
proof -
  have h: "map_of (inQueue (arrive accepts ready old_req)) (str (attr new_req ''rid''))
             = Some old_req"
    by code_simp
  from duplicate_rid_replaces [OF h] h show ?thesis
    by blast
qed

section \<open>C4: one outbound drain writes one batch\<close>

text \<open>
  C4, as amended.  When \<^verbatim>\<open>workOutQueue\<close> runs with \<open>stanzaQueue\<close> and \<open>outQueue\<close> both non-empty,
  it empties \<open>stanzaQueue\<close>, removes the oldest context from \<open>outQueue\<close>, clears and forgets
  the timer of that context, and writes one response to it whose body holds, in the order
  they were queued, the queued payloads that parse; for each payload that does not parse an
  error is logged and the payload is left out.  The idle timer is armed when \<open>outQueue\<close> has
  become empty.
\<close>

theorem drain_writes_one_batch:
  assumes "stanzaQueue s \<noteq> []" and "outQueue s = opts # rest"
  shows "stanzaQueue (workOutQueue p s) = []
         \<and> outQueue (workOutQueue p s) = rest
         \<and> effects (workOutQueue p s) =
             effects s
             @ [WriteHead (res opts) 200 [(''Content-Type'', ''application/xml; charset=utf-8'')]]
             @ map (\<lambda>e. ConsoleError (''could not parse'' @ e))
                 (filter (\<lambda>e. \<not> p e) (stanzaQueue s))
             @ [WriteBody (res opts) (fold (\<lambda>(k, v) a. AList.update k v a) (xmlnsAttrs s) [])
                  (filter p (stanzaQueue s)),
                EndRes (res opts) None]
         \<and> opts_timer (workOutQueue p s) (oid opts) = None
         \<and> timers (workOutQueue p s) =
             (let live = (case opts_timer s (oid opts) of
                            None \<Rightarrow> timers s | Some t \<Rightarrow> (timers s)(t := None))
              in if rest = [] then live(next_timer s \<mapsto> Timer SessionTimeout (Some 60000))
                 else live)"
  using assms
  by (auto simp: workOutQueue_def Let_def respond_effects_def maySetConnectionTimeout_def
        setTimeout_def clearTimeout_def split: option.splits)

text \<open>A stream header and a stanza are queued while the creating request is held: the
  response holds the stanza only.\<close>

theorem drain_writes_one_batch_witness:
  "stanzaQueue backlog = [''<stream:stream>'', ''<x/>'']
   \<and> outQueue backlog = [creating_request]
   \<and> stanzaQueue (workOutQueue accepts backlog) = []
   \<and> outQueue (workOutQueue accepts backlog) = []
   \<and> bodies_written (effects (workOutQueue accepts backlog)) (res creating_request) = [[''<x/>'']]"
proof -
  have h0: "stanzaQueue backlog = [''<stream:stream>'', ''<x/>'']"
    by code_simp
  then have h1: "stanzaQueue backlog \<noteq> []"
    by simp
  have h2: "outQueue backlog = [creating_request]"
    by code_simp
  note c = drain_writes_one_batch [OF h1 h2, of accepts]
  have b: "bodies_written (effects backlog) (res creating_request) = []"
    by code_simp
  have f: "filter accepts [''<stream:stream>'', ''<x/>''] = [''<x/>'']"
    by code_simp
  have "bodies_written (effects (workOutQueue accepts backlog)) (res creating_request) = [[''<x/>'']]"
    using c b f by (simp add: bodies_written_def h0)
  with c h0 h2 show ?thesis
    by blast
qed

text \<open>The body written does not hold all the payloads of the batch.\<close>

theorem drain_all_payloads_counterexample:
  "\<not> (bodies_written (effects (workOutQueue accepts backlog)) (res creating_request)
        = [stanzaQueue backlog])"
  by code_simp

section \<open>C5: what write returns\<close>

text \<open>
  C5, as amended.  \<^verbatim>\<open>write(data)\<close> appends the payload to \<open>stanzaQueue\<close>, defers a call of
  \<^verbatim>\<open>workOutQueue\<close>, and returns whether \<open>outQueue\<close> is non-empty, that is, whether a held
  response is there to flush the payload to.
\<close>

theorem write_returns_flush:
  "write_data s d =
     (outQueue s \<noteq> [],
      s\<lparr>stanzaQueue := stanzaQueue s @ [d], ticks := ticks s @ [TaskWorkOutQueue]\<rparr>)"
  by (simp add: write_data_def nextTick_def Let_def)

text \<open>On a new session no response is held: \<^verbatim>\<open>write\<close> returns false although the payload
  is now waiting in \<open>stanzaQueue\<close>.\<close>

theorem write_backlog_counterexample:
  "\<not> (fst (write_data created ''<message/>'')
        \<longleftrightarrow> stanzaQueue (snd (write_data created ''<message/>'')) \<noteq> [])"
  by code_simp

section \<open>C6: the creating request has no liveness timer\<close>

text \<open>
  C6.  The constructor puts the creating request into \<open>inQueue\<close> without a timer, while
  \<^verbatim>\<open>handleHTTP\<close> arms one for every request it admits.  After the deferred calls of a new
  session the creating request is held in \<open>outQueue\<close>, no payload is queued, the context has
  no timer, and the only pending timeout is the idle timer; when that fires, nothing is
  written to the held response, it stays in \<open>outQueue\<close>, and no timeout is left.
\<close>

theorem first_request_has_no_liveness_timer:
  "outQueue ready = [creating_request]
   \<and> stanzaQueue ready = []
   \<and> opts_timer ready (oid creating_request) = None
   \<and> pending_timers ready = [(0, Timer SessionTimeout (Some 60000))]
   \<and> bodies_written (effects (fire accepts ready 0)) (res creating_request) = []
   \<and> outQueue (fire accepts ready 0) = [creating_request]
   \<and> pending_timers (fire accepts ready 0) = []"
  by code_simp

section \<open>C7: the timer of a replaced request stays armed\<close>

text \<open>
  C7.  \<^verbatim>\<open>handleHTTP\<close> does not clear the timer of the context it replaces, while
  \<^verbatim>\<open>workOutQueue\<close> and the terminate branch of \<^verbatim>\<open>workInQueue\<close> clear the timer of each context
  they retire.  After two requests with rid 3 have arrived at \<open>ready\<close>, the timers of both
  are pending and the second request is queued with nothing written to its response; when
  the timer of the first fires, the second request is taken out of \<open>inQueue\<close> and answered
  with an empty body.
\<close>

theorem superseded_timer_still_fires:
  "pending_timers superseded =
     [(1, Timer (ReqTimeout old_req) (Some 5000)), (2, Timer (ReqTimeout new_req) (Some 5000))]
   \<and> inQueue superseded = [(''3'', new_req)]
   \<and> bodies_written (effects superseded) (res new_req) = []
   \<and> inQueue (fire accepts superseded 1) = []
   \<and> bodies_written (effects (fire accepts superseded 1)) (res new_req) = [[]]"
  by code_simp

section \<open>C8: the idle timer\<close>








section \<open>C9: a restart request re-opens the stream\<close>

text \<open>
  C9.  When \<^verbatim>\<open>workInQueue\<close> processes a request whose attribute \<^verbatim>\<open>xmpp:restart\<close> is \<^verbatim>\<open>true\<close>, the
  data events it emits are the stream header built for a restart, an opening \<^verbatim>\<open>stream:stream\<close> tag in
  the namespace \<^verbatim>\<open>jabber:client\<close> with the attributes \<^verbatim>\<open>to\<close> and \<^verbatim>\<open>xmpp:version\<close> of the request
  (the text \<^verbatim>\<open>undefined\<close> for a missing one), followed by the children of the request; this
  holds in every state of the session.
\<close>

theorem restart_emits_stream_open:
  assumes "map_of (inQueue s) (num_str (nextRid s)) = Some opts"
      and "attr opts ''xmpp:restart'' = Some ''true''"
  shows "data_events (effects (workInQueue p s)) =
           data_events (effects s)
           @ (''<stream:stream xmlns='' @ [CHR 0x27] @ ''jabber:client'' @ [CHR 0x27]
              @ '' xmlns:stream='' @ [CHR 0x27] @ ''http://etherx.jabber.org/streams''
              @ [CHR 0x27] @ ''  to='' @ [CHR 0x27]
              @ (case attr opts ''to'' of None \<Rightarrow> ''undefined'' | Some a \<Rightarrow> a)
              @ [CHR 0x27] @ '' version='' @ [CHR 0x27]
              @ (case attr opts ''xmpp:version'' of None \<Rightarrow> ''undefined'' | Some v \<Rightarrow> v)
              @ [CHR 0x27] @ ''>'')
           # children (bodyEl opts)"
  using assms
  by (simp add: workInQueue_effects inbound_data_def truthy_def stream_restart_def sq_def
        str_def)

text \<open>A restart request with rid 2 arriving at \<open>ready\<close>.\<close>

theorem restart_emits_stream_open_witness:
  "map_of (inQueue (handleHTTP ready restart_req)) (num_str (nextRid (handleHTTP ready restart_req)))
     = Some restart_req
   \<and> attr restart_req ''xmpp:restart'' = Some ''true''
   \<and> data_events (effects (workInQueue accepts (handleHTTP ready restart_req))) =
       data_events (effects (handleHTTP ready restart_req))
       @ [''<stream:stream xmlns='' @ [CHR 0x27] @ ''jabber:client'' @ [CHR 0x27]
            @ '' xmlns:stream='' @ [CHR 0x27] @ ''http://etherx.jabber.org/streams''
            @ [CHR 0x27] @ ''  to='' @ [CHR 0x27] @ ''example.org'' @ [CHR 0x27]
            @ '' version='' @ [CHR 0x27] @ ''1.0'' @ [CHR 0x27] @ ''>'',
          ''<bind/>'']"
proof -
  have h1: "map_of (inQueue (handleHTTP ready restart_req))
              (num_str (nextRid (handleHTTP ready restart_req))) = Some restart_req"
    by code_simp
  have h2: "attr restart_req ''xmpp:restart'' = Some ''true''"
    by code_simp
  have h3: "attr restart_req ''to'' = Some ''example.org''"
           "attr restart_req ''xmpp:version'' = Some ''1.0''"
           "children (bodyEl restart_req) = [''<bind/>'']"
    by code_simp+
  from restart_emits_stream_open [OF h1 h2, of accepts] h1 h2 show ?thesis
    by (simp add: h3)
qed

section \<open>pause, resume and end\<close>

text \<open>
  C10.  For every session state, \<^verbatim>\<open>pause()\<close>, \<^verbatim>\<open>resume()\<close> and \<^verbatim>\<open>end()\<close> return the state they
  were called on: queues, \<open>nextRid\<close>, timers, deferred calls and the record of emitted
  events and written responses are all unchanged, so \<^verbatim>\<open>end()\<close> neither terminates the
  session nor completes a held response.
\<close>

theorem pause_resume_end_noop:
  "pause s = s \<and> resume s = s \<and> end_session s = s"
  by (simp add: pause_def resume_def end_session_def)

end
